theory Spec2Isabelle
  imports Main
begin

section \<open>Data model of the conversation session (src/app/page.tsx)\<close>

text \<open>
  The page component \<open>Home\<close> keeps three pieces of state: \<open>images\<close>, \<open>messages\<close> and
  \<open>isLoading\<close>. Every handler is modelled as a function from the state it sees to the
  state it leaves; a functional update \<open>setX((prev) => ...)\<close> and a direct update
  \<open>setX(v)\<close> both become a record update on the state the handler runs in. A closure
  (\<open>images\<close>, \<open>messages\<close> as read in the handler's body) is the state at the moment the
  handler is called.
\<close>

datatype role = User | Assistant

text \<open>
  The interfaces \<open>Message\<close> and \<open>ChatResponse\<close> that the page imports from
  \<open>@/types/conversation\<close>, field by field as declared (the declarations are the last part
  of \<open>src/next.config.js\<close>). \<open>id\<close> and \<open>role\<close> are named \<open>msg_id\<close> and \<open>msg_role\<close> here;
  an optional field is an \<open>option\<close>, \<open>None\<close> when the object literal leaves it out. A
  \<open>Date\<close> is held as its time value, the milliseconds since the epoch that \<open>Date.now()\<close>
  also returns.
\<close>

record Message =
  msg_id :: string
  msg_role :: role
  content :: string
  timestamp :: nat
  imageUrl :: "string option"
  audioUrl :: "string option"

record ChatResponse =
  message :: string
  success :: bool
  error :: "string option"

text \<open>An element of the conversation history handed to \<open>chatWithImage\<close>: \<open>{role, content}\<close>.\<close>

record HistoryEntry =
  entry_role :: role
  entry_content :: string

record session =
  images :: "string list"
  messages :: "Message list"
  isLoading :: bool

text \<open>The state of the first render: three \<open>useState\<close> initial values.\<close>

definition initial :: session where
  "initial = \<lparr>images = [], messages = [], isLoading = False\<rparr>"

section \<open>Array and number primitives of the host language\<close>

text \<open>
  \<open>Array.prototype.slice(start)\<close> with one argument: a negative \<open>start\<close> counts from
  the end and is clamped at 0, a non-negative one is clamped at the length.
\<close>

definition slice :: "int \<Rightarrow> 'a list \<Rightarrow> 'a list" where
  "slice start xs =
     (let len = int (length xs);
          k = (if start < 0 then max (len + start) 0 else min start len)
      in drop (nat k) xs)"

text \<open>
  \<open>Array.prototype.filter\<close> with a callback that receives the element and its index.
  The callback is called for the indices \<open>0 .. length - 1\<close> only.
\<close>

definition filter_index :: "('a \<Rightarrow> nat \<Rightarrow> bool) \<Rightarrow> 'a list \<Rightarrow> 'a list" where
  "filter_index p xs = map fst (filter (\<lambda>(x, i). p x i) (zip xs [0..<length xs]))"

text \<open>
  \<open>Number.prototype.toString()\<close> on a non-negative integer: its decimal digits.
\<close>

definition digit :: "nat \<Rightarrow> char" where
  "digit d = ''0123456789'' ! d"

function toString :: "nat \<Rightarrow> string" where
  "toString n = (if n < 10 then [digit n] else toString (n div 10) @ [digit (n mod 10)])"
  by pat_completeness auto
termination
  by (relation "measure (\<lambda>n. n)") auto

declare toString.simps [simp del]

section \<open>Image handlers\<close>

text \<open>
  \<open>handleImageCapture(imageUrl)\<close>: the empty string is the request to clear; any other
  payload is appended and the list cut to its last three entries.
\<close>

definition handleImageCapture :: "string \<Rightarrow> session \<Rightarrow> session" where
  "handleImageCapture url s =
     (if url = [] then s\<lparr>images := [], messages := []\<rparr>
      else
        s\<lparr>images :=
            (let newImages = images s @ [url]
             in if length newImages > 3 then slice (- 3) newImages else newImages),
          messages := []\<rparr>)"

text \<open>\<open>removeImage(index)\<close>: keeps every entry whose position differs from \<open>index\<close>.\<close>

definition removeImage :: "int \<Rightarrow> session \<Rightarrow> session" where
  "removeImage index s =
     s\<lparr>images := filter_index (\<lambda>_ i. int i \<noteq> index) (images s), messages := []\<rparr>"

section \<open>Sending a message\<close>

text \<open>
  The arguments of one call \<open>chatWithImage(enhancedMessage, images[0], conversationHistory)\<close>.
\<close>

record inference_call =
  call_message :: string
  call_imageUrl :: string
  call_history :: "HistoryEntry list"

text \<open>How the awaited call settles: the promise resolves with a response or rejects.\<close>

datatype outcome = Resolved ChatResponse | Rejected

text \<open>
  \<open>handleSendMessage\<close> is an async function with one \<open>await\<close>. Its body up to the
  \<open>await\<close> is \<open>handleSendMessage_begin\<close>: it returns the state it leaves and the call it
  issues, \<open>None\<close> when it returns before issuing one. \<open>now\<close> is the reading of
  \<open>Date.now()\<close> and \<open>date\<close> the one of \<open>new Date()\<close>.
\<close>

definition handleSendMessage_begin ::
  "nat \<Rightarrow> nat \<Rightarrow> string \<Rightarrow> session \<Rightarrow> session \<times> inference_call option" where
  "handleSendMessage_begin now date msg s =
     (case images s of
        [] \<Rightarrow>
          (let systemMessage =
                 \<lparr>msg_id = toString now, msg_role = Assistant,
                  content = ''Please upload or capture an image first so I can analyze it for you.'',
                  timestamp = date, imageUrl = None, audioUrl = None\<rparr>
           in (s\<lparr>messages := [systemMessage]\<rparr>, None))
      | first # _ \<Rightarrow>
          (let userMessage =
                 \<lparr>msg_id = toString now, msg_role = User, content = msg,
                  timestamp = date, imageUrl = Some first, audioUrl = None\<rparr>;
               updatedMessages = messages s @ [userMessage];
               conversationHistory =
                 map (\<lambda>m. \<lparr>entry_role = msg_role m, entry_content = content m\<rparr>) updatedMessages;
               enhancedMessage =
                 (if length (images s) > 1
                  then ''I have '' @ toString (length (images s)) @ '' images to analyze. '' @ msg
                  else msg)
           in (s\<lparr>isLoading := True, messages := updatedMessages\<rparr>,
               Some \<lparr>call_message = enhancedMessage, call_imageUrl = first,
                     call_history = conversationHistory\<rparr>)))"

text \<open>
  The rest of the body runs when the call settles, in the state of that moment:
  a successful response is appended with \<open>setMessages((prev) => [...prev, aiMessage])\<close>,
  an unsuccessful one and a rejection are only logged, and \<open>finally\<close> resets \<open>isLoading\<close>.
\<close>

definition handleSendMessage_settle :: "nat \<Rightarrow> nat \<Rightarrow> outcome \<Rightarrow> session \<Rightarrow> session" where
  "handleSendMessage_settle now date out s =
     (case out of
        Resolved response \<Rightarrow>
          (if success response
           then s\<lparr>messages := messages s @
                     [\<lparr>msg_id = toString (now + 1), msg_role = Assistant,
                       content = message response, timestamp = date, imageUrl = None, audioUrl = None\<rparr>]\<rparr>
           else s)
      | Rejected \<Rightarrow> s)\<lparr>isLoading := False\<rparr>"

text \<open>
  A whole turn with nothing happening in between: \<open>chatWithImage\<close> is the collaborator,
  \<open>now'\<close> and \<open>date'\<close> are the clock readings after it has settled.
\<close>

definition handleSendMessage ::
  "(inference_call \<Rightarrow> outcome) \<Rightarrow> nat \<Rightarrow> nat \<Rightarrow> nat \<Rightarrow> nat \<Rightarrow> string \<Rightarrow> session \<Rightarrow> session" where
  "handleSendMessage chatWithImage now date now' date' msg s =
     (case handleSendMessage_begin now date msg s of
        (s', None) \<Rightarrow> s'
      | (s', Some call) \<Rightarrow> handleSendMessage_settle now' date' (chatWithImage call) s')"

text \<open>A run of \<open>handleImageCapture\<close> calls, one payload after the other.\<close>

definition addImages :: "string list \<Rightarrow> session \<Rightarrow> session" where
  "addImages urls s = fold handleImageCapture urls s"

section \<open>The history window of the server action \<open>chatWithImage\<close>\<close>




section \<open>Facts about the primitives\<close>

lemma slice_last_three: "3 < length xs \<Longrightarrow> slice (- 3) xs = drop (length xs - 3) xs"
  by (simp add: slice_def Let_def nat_diff_distrib' max_def)

lemma filter_index_all:
  assumes "\<And>i. i < length xs \<Longrightarrow> p (xs ! i) i"
  shows "filter_index p xs = xs"
proof -
  have "\<forall>e\<in>set (zip xs [0..<length xs]). (\<lambda>(x, i). p x i) e"
    using assms by (auto simp: set_zip)
  then have "filter (\<lambda>(x, i). p x i) (zip xs [0..<length xs]) = zip xs [0..<length xs]"
    by (rule filter_True)
  then show ?thesis by (simp add: filter_index_def)
qed

section \<open>The image list is a window of three\<close>

lemma images_handleImageCapture:
  "url \<noteq> [] \<Longrightarrow>
   images (handleImageCapture url s) = drop (length (images s) + 1 - 3) (images s @ [url])"
  by (simp add: handleImageCapture_def Let_def slice_last_three)

lemma images_addImages:
  "\<forall>u\<in>set urls. u \<noteq> [] \<Longrightarrow> length (images s) \<le> 3 \<Longrightarrow>
   images (addImages urls s) = drop (length (images s) + length urls - 3) (images s @ urls)"
proof (induction urls arbitrary: s)
  case Nil
  then show ?case by (simp add: addImages_def)
next
  case (Cons u us)
  let ?s = "handleImageCapture u s"
  let ?k = "length (images s) + 1 - 3"
  have step: "images ?s = drop ?k (images s @ [u])"
    using Cons.prems by (simp add: images_handleImageCapture)
  then have bound: "length (images ?s) \<le> 3"
    using Cons.prems by simp
  have "images (addImages (u # us) s) = images (addImages us ?s)"
    by (simp add: addImages_def)
  also have "\<dots> = drop (length (images ?s) + length us - 3) (images ?s @ us)"
    using Cons.IH[of ?s] Cons.prems bound by simp
  also have "\<dots> = drop (length (images s) + length (u # us) - 3) (images s @ u # us)"
  proof -
    have k: "?k \<le> length (images s)" by simp
    have a: "images ?s @ us = drop ?k (images s @ u # us)"
      unfolding step using k by simp
    have b: "length (images ?s) = length (images s) + 1 - ?k"
      unfolding step by simp
    have c: "length (images s) + 1 - ?k + length us - 3 + ?k =
             length (images s) + length (u # us) - 3"
      using Cons.prems(2) by simp
    show ?thesis unfolding a b drop_drop c ..
  qed
  finally show ?case .
qed

text \<open>
  C1. Starting from a session that holds at most three images (the first render holds
  none), after any run of \<open>handleImageCapture\<close> calls with non-empty payloads the image
  list has at most three entries, and once more than three payloads have been added it
  is the last three of them, oldest first.
\<close>

theorem addImage_keeps_last_three:
  assumes "\<forall>u\<in>set urls. u \<noteq> []" and "length (images s) \<le> 3"
  shows "length (images (addImages urls s)) \<le> 3 \<and>
         (3 < length urls \<longrightarrow> images (addImages urls s) = drop (length urls - 3) urls)"
  using assms by (simp add: images_addImages)

theorem addImage_keeps_last_three_witness:
  "[] \<notin> set [''img1'', ''img2'', ''img3'', ''img4''] \<and>
   length (images initial) \<le> 3 \<and>
   length (images (addImages [''img1'', ''img2'', ''img3'', ''img4''] initial)) \<le> 3 \<and>
   images (addImages [''img1'', ''img2'', ''img3'', ''img4''] initial) =
     [''img2'', ''img3'', ''img4'']"
  using addImage_keeps_last_three [of "[''img1'', ''img2'', ''img3'', ''img4'']" initial]
  by (simp add: initial_def)

section \<open>Clearing and the message list\<close>

text \<open>
  C2. Right after \<open>handleImageCapture\<close> with any payload, and right after \<open>removeImage\<close>
  with any index, in range or not, the message list is empty, whatever it held before.
\<close>

theorem image_change_clears_messages:
  "messages (handleImageCapture url s) = [] \<and> messages (removeImage index s) = []"
  by (simp add: handleImageCapture_def removeImage_def)

theorem image_change_clears_messages_witness:
  "messages (handleImageCapture ''img2''
      (fst (handleSendMessage_begin 1 1 ''hello'' (handleImageCapture ''img1'' initial)))) = [] \<and>
   messages (removeImage 7
      (fst (handleSendMessage_begin 1 1 ''hello'' (handleImageCapture ''img1'' initial)))) = []"
  using image_change_clears_messages
          [of "''img2''"
              "fst (handleSendMessage_begin 1 1 ''hello'' (handleImageCapture ''img1'' initial))" 7]
  by simp

text \<open>
  C7. \<open>handleImageCapture('')\<close> leaves both the image list and the message list empty,
  whatever the state before.
\<close>

theorem addImage_sentinel_clears:
  "images (handleImageCapture '''' s) = [] \<and> messages (handleImageCapture '''' s) = []"
  by (simp add: handleImageCapture_def)

theorem addImage_sentinel_clears_witness:
  "images (handleImageCapture []
      (fst (handleSendMessage_begin 1 1 ''hello'' (handleImageCapture ''img1'' initial)))) = [] \<and>
   messages (handleImageCapture []
      (fst (handleSendMessage_begin 1 1 ''hello'' (handleImageCapture ''img1'' initial)))) = []"
  using addImage_sentinel_clears
          [of "fst (handleSendMessage_begin 1 1 ''hello'' (handleImageCapture ''img1'' initial))"]
  by simp

section \<open>Removing an image\<close>

text \<open>
  C6. \<open>removeImage\<close> is a filter over the positions of the list: it reads no element by
  index and has no raising operation, so it returns a session for every integer. For a
  negative index and for an index at or beyond the length, the image list it returns is
  the one it was given.
\<close>

theorem removeImage_out_of_range:
  assumes "index < 0 \<or> int (length (images s)) \<le> index"
  shows "images (removeImage index s) = images s"
proof -
  have "filter_index (\<lambda>_ i. int i \<noteq> index) (images s) = images s"
    using assms by (intro filter_index_all) auto
  then show ?thesis by (simp add: removeImage_def)
qed

theorem removeImage_out_of_range_witness:
  "images (removeImage 5 \<lparr>images = [''a'', ''b''], messages = [], isLoading = False\<rparr>) =
     [''a'', ''b''] \<and>
   images (removeImage (- 1) \<lparr>images = [''a'', ''b''], messages = [], isLoading = False\<rparr>) =
     [''a'', ''b'']"
  using removeImage_out_of_range
          [of 5 "\<lparr>images = [''a'', ''b''], messages = [], isLoading = False\<rparr>"]
        removeImage_out_of_range
          [of "- 1" "\<lparr>images = [''a'', ''b''], messages = [], isLoading = False\<rparr>"]
  by simp


section \<open>The two halves of a turn\<close>

lemma begin_no_image:
  "images s = [] \<Longrightarrow>
   handleSendMessage_begin now date msg s =
     (s\<lparr>messages :=
          [\<lparr>msg_id = toString now, msg_role = Assistant,
            content = ''Please upload or capture an image first so I can analyze it for you.'',
            timestamp = date, imageUrl = None, audioUrl = None\<rparr>]\<rparr>, None)"
  by (simp add: handleSendMessage_begin_def)

lemma begin_with_image:
  "images s \<noteq> [] \<Longrightarrow>
   handleSendMessage_begin now date msg s =
     (s\<lparr>isLoading := True,
        messages := messages s @
          [\<lparr>msg_id = toString now, msg_role = User, content = msg,
            timestamp = date, imageUrl = Some (images s ! 0), audioUrl = None\<rparr>]\<rparr>,
      Some \<lparr>call_message =
              (if length (images s) > 1
               then ''I have '' @ toString (length (images s)) @ '' images to analyze. '' @ msg
               else msg),
            call_imageUrl = images s ! 0,
            call_history =
              map (\<lambda>m. \<lparr>entry_role = msg_role m, entry_content = content m\<rparr>) (messages s) @
              [\<lparr>entry_role = User, entry_content = msg\<rparr>]\<rparr>)"
  by (cases "images s") (simp_all add: handleSendMessage_begin_def Let_def)

lemma settle_success:
  "success r \<Longrightarrow>
   handleSendMessage_settle now date (Resolved r) s =
     s\<lparr>messages := messages s @
          [\<lparr>msg_id = toString (now + 1), msg_role = Assistant, content = message r,
            timestamp = date, imageUrl = None, audioUrl = None\<rparr>],
       isLoading := False\<rparr>"
  by (simp add: handleSendMessage_settle_def)

lemma settle_failure:
  "out = Rejected \<or> (\<exists>r. out = Resolved r \<and> \<not> success r) \<Longrightarrow>
   handleSendMessage_settle now date out s = s\<lparr>isLoading := False\<rparr>"
  by (auto simp: handleSendMessage_settle_def)

lemma toString_digit: "n < 10 \<Longrightarrow> toString n = [digit n]"
  by (simp add: toString.simps)



section \<open>A turn with an image\<close>

text \<open>
  C3. When \<open>handleSendMessage(msg)\<close> is called with a non-empty image list, the part before
  the \<open>await\<close> appends exactly one message, of role user, with content \<open>msg\<close> and
  \<open>imageUrl = images[0]\<close>, and sets \<open>isLoading\<close>. When the call then resolves with
  \<open>success\<close>, exactly one message of role assistant with the returned text is appended
  and \<open>isLoading\<close> is reset. A whole turn against a collaborator that answers with that
  response ends in this state.
\<close>

theorem sendMessage_success_turn:
  assumes "images s \<noteq> []" and "success r"
  shows "(let s1 = fst (handleSendMessage_begin now date msg s);
              s2 = handleSendMessage_settle now' date' (Resolved r) s1;
              userMessage = \<lparr>msg_id = toString now, msg_role = User, content = msg,
                             timestamp = date, imageUrl = Some (images s ! 0), audioUrl = None\<rparr>;
              aiMessage = \<lparr>msg_id = toString (now' + 1), msg_role = Assistant,
                           content = message r, timestamp = date', imageUrl = None, audioUrl = None\<rparr>
          in messages s1 = messages s @ [userMessage] \<and> isLoading s1 \<and>
             messages s2 = messages s1 @ [aiMessage] \<and> \<not> isLoading s2 \<and>
             handleSendMessage (\<lambda>call. Resolved r) now date now' date' msg s = s2)"
  using assms
  by (simp add: begin_with_image settle_success handleSendMessage_def Let_def)

theorem sendMessage_success_turn_witness:
  "images (handleImageCapture ''img1'' initial) \<noteq> [] \<and>
   success \<lparr>message = ''A cat'', success = True, error = None\<rparr> \<and>
   messages (handleSendMessage
               (\<lambda>call. Resolved \<lparr>message = ''A cat'', success = True, error = None\<rparr>)
               1 1 2 2 ''what is this'' (handleImageCapture ''img1'' initial)) =
     [\<lparr>msg_id = toString 1, msg_role = User, content = ''what is this'',
       timestamp = 1, imageUrl = Some ''img1'', audioUrl = None\<rparr>,
      \<lparr>msg_id = toString 3, msg_role = Assistant, content = ''A cat'',
       timestamp = 2, imageUrl = None, audioUrl = None\<rparr>] \<and>
   \<not> isLoading (handleSendMessage
               (\<lambda>call. Resolved \<lparr>message = ''A cat'', success = True, error = None\<rparr>)
               1 1 2 2 ''what is this'' (handleImageCapture ''img1'' initial))"
  using sendMessage_success_turn
          [of "handleImageCapture ''img1'' initial"
              "\<lparr>message = ''A cat'', success = True, error = None\<rparr>"
              1 1 "''what is this''" 2 2]
  by (simp add: handleImageCapture_def initial_def Let_def)

text \<open>
  C5. When \<open>handleSendMessage(msg)\<close> is called with a non-empty image list and the call
  rejects or resolves with \<open>success = false\<close>, the turn has added the user's message and
  nothing else: the message list is the one before the turn followed by that message,
  and \<open>isLoading\<close> is reset.
\<close>

theorem sendMessage_failure_turn:
  assumes "images s \<noteq> []"
      and "out = Rejected \<or> (\<exists>r. out = Resolved r \<and> \<not> success r)"
  shows "(let s2 = handleSendMessage_settle now' date' out
                     (fst (handleSendMessage_begin now date msg s));
              userMessage = \<lparr>msg_id = toString now, msg_role = User, content = msg,
                             timestamp = date, imageUrl = Some (images s ! 0), audioUrl = None\<rparr>
          in messages s2 = messages s @ [userMessage] \<and> \<not> isLoading s2 \<and>
             handleSendMessage (\<lambda>call. out) now date now' date' msg s = s2)"
  using assms(1) settle_failure[OF assms(2)]
  by (simp add: begin_with_image handleSendMessage_def Let_def)

theorem sendMessage_failure_turn_witness:
  "images (handleImageCapture ''img1'' initial) \<noteq> [] \<and>
   messages (handleSendMessage (\<lambda>call. Rejected) 1 1 2 2 ''what is this''
               (handleImageCapture ''img1'' initial)) =
     [\<lparr>msg_id = toString 1, msg_role = User, content = ''what is this'',
       timestamp = 1, imageUrl = Some ''img1'', audioUrl = None\<rparr>] \<and>
   \<not> isLoading (handleSendMessage (\<lambda>call. Rejected) 1 1 2 2 ''what is this''
               (handleImageCapture ''img1'' initial)) \<and>
   \<not> success \<lparr>message = ''Sorry, I encountered an error while processing your request.'',
               success = False, error = Some ''Failed to generate response''\<rparr> \<and>
   messages (handleSendMessage
               (\<lambda>call. Resolved
                  \<lparr>message = ''Sorry, I encountered an error while processing your request.'',
                   success = False, error = Some ''Failed to generate response''\<rparr>)
               1 1 2 2 ''what is this'' (handleImageCapture ''img1'' initial)) =
     [\<lparr>msg_id = toString 1, msg_role = User, content = ''what is this'',
       timestamp = 1, imageUrl = Some ''img1'', audioUrl = None\<rparr>]"
  using sendMessage_failure_turn
          [of "handleImageCapture ''img1'' initial" Rejected 2 2 1 1 "''what is this''"]
        sendMessage_failure_turn
          [of "handleImageCapture ''img1'' initial"
              "Resolved \<lparr>message = ''Sorry, I encountered an error while processing your request.'',
                         success = False, error = Some ''Failed to generate response''\<rparr>"
              2 2 1 1 "''what is this''"]
  by (simp add: handleImageCapture_def initial_def Let_def)

text \<open>
  C8. When \<open>handleSendMessage(msg)\<close> is called with more than one image, the text handed
  to \<open>chatWithImage\<close> is \<open>msg\<close> behind the prefix \<open>I have N images to analyze. \<close> with
  \<open>N\<close> the decimal length of the image list, and the image handed over is \<open>images[0]\<close>.
\<close>

theorem sendMessage_count_prefix:
  assumes "1 < length (images s)"
  shows "map_option call_message (snd (handleSendMessage_begin now date msg s)) =
           Some (''I have '' @ toString (length (images s)) @ '' images to analyze. '' @ msg) \<and>
         map_option call_imageUrl (snd (handleSendMessage_begin now date msg s)) =
           Some (images s ! 0)"
proof -
  from assms have "images s \<noteq> []" by auto
  then show ?thesis using assms by (simp add: begin_with_image)
qed

theorem sendMessage_count_prefix_witness:
  "1 < length (images (addImages [''a'', ''b''] initial)) \<and>
   map_option call_message
     (snd (handleSendMessage_begin 1 1 ''hi'' (addImages [''a'', ''b''] initial))) =
     Some ''I have 2 images to analyze. hi'' \<and>
   map_option call_imageUrl
     (snd (handleSendMessage_begin 1 1 ''hi'' (addImages [''a'', ''b''] initial))) = Some ''a''"
  using sendMessage_count_prefix [of "addImages [''a'', ''b''] initial" 1 1 "''hi''"]
  by (simp add: addImages_def handleImageCapture_def initial_def toString_digit digit_def)


section \<open>A turn without an image\<close>

text \<open>
  What the handler does when the image list is empty: it writes
  \<open>setMessages([systemMessage])\<close> and returns. No call to \<open>chatWithImage\<close> is issued, the
  first half returns no call and the whole turn does not depend on the collaborator.
\<close>

lemma sendMessage_no_image:
  assumes "images s = []"
  shows "(let systemMessage =
                \<lparr>msg_id = toString now, msg_role = Assistant,
                 content = ''Please upload or capture an image first so I can analyze it for you.'',
                 timestamp = date, imageUrl = None, audioUrl = None\<rparr>
          in handleSendMessage_begin now date msg s = (s\<lparr>messages := [systemMessage]\<rparr>, None) \<and>
             handleSendMessage chatWithImage now date now' date' msg s =
               s\<lparr>messages := [systemMessage]\<rparr>)"
  using assms by (simp add: begin_no_image handleSendMessage_def Let_def)

text \<open>
  C4. With an empty image list \<open>handleSendMessage\<close> is to append one assistant-authored
  message asking for an image; its own comment says \<open>Add a system message\<close> and the two
  other \<open>setMessages\<close> of the handler append. The code sets the list to that one message
  instead. After one send without an image the list holds one message; a second send
  in that state leaves one message, where an append leaves two: the message held before
  is lost.
\<close>

theorem sendMessage_no_image_replaces:
  "images (fst (handleSendMessage_begin 1 1 ''hello'' initial)) = [] \<and>
   length (messages (fst (handleSendMessage_begin 1 1 ''hello'' initial))) = 1 \<and>
   length (messages (fst (handleSendMessage_begin 2 2 ''hello''
                            (fst (handleSendMessage_begin 1 1 ''hello'' initial))))) = 1"
  by (simp add: handleSendMessage_begin_def initial_def)

section \<open>The conversation history handed to the collaborator\<close>




section \<open>Clearing while a call is outstanding\<close>

text \<open>
  C10 (amended). When the images are cleared with \<open>handleImageCapture('')\<close> while a call is
  outstanding and the call then resolves with \<open>success\<close>, the reply is not discarded: the
  continuation appends to the list as it is then, so the cleared session ends up with
  exactly one message, the assistant reply of the superseded call, and \<open>isLoading\<close> is
  reset. The handler holds no check of the image set the call was issued for.
\<close>

theorem reset_in_flight_keeps_reply:
  assumes "images s \<noteq> []" and "success r"
  shows "(let s1 = fst (handleSendMessage_begin now date msg s);
              s2 = handleImageCapture [] s1;
              s3 = handleSendMessage_settle now' date' (Resolved r) s2
          in images s2 = [] \<and> messages s2 = [] \<and>
             messages s3 = [\<lparr>msg_id = toString (now' + 1), msg_role = Assistant,
                              content = message r, timestamp = date', imageUrl = None, audioUrl = None\<rparr>] \<and>
             images s3 = [] \<and> \<not> isLoading s3)"
  using assms by (simp add: begin_with_image settle_success handleImageCapture_def Let_def)

theorem reset_in_flight_keeps_reply_witness:
  "images (addImages [''a'', ''b''] initial) \<noteq> [] \<and>
   success \<lparr>message = ''Two dogs'', success = True, error = None\<rparr> \<and>
   messages (handleSendMessage_settle 5 6
               (Resolved \<lparr>message = ''Two dogs'', success = True, error = None\<rparr>)
               (handleImageCapture []
                  (fst (handleSendMessage_begin 3 4 ''describe''
                          (addImages [''a'', ''b''] initial))))) =
     [\<lparr>msg_id = toString 6, msg_role = Assistant, content = ''Two dogs'',
       timestamp = 6, imageUrl = None, audioUrl = None\<rparr>]"
  using reset_in_flight_keeps_reply
          [of "addImages [''a'', ''b''] initial"
              "\<lparr>message = ''Two dogs'', success = True, error = None\<rparr>"
              3 4 "''describe''" 5 6]
  by (simp add: addImages_def handleImageCapture_def initial_def Let_def)

text \<open>
  One capture, one send, a clear before the answer, then the answer: the cleared
  session holds the answer.
\<close>

theorem reset_in_flight_reply_appended:
  "messages (handleSendMessage_settle 2 2
               (Resolved \<lparr>message = ''A cat'', success = True, error = None\<rparr>)
               (handleImageCapture []
                  (fst (handleSendMessage_begin 1 1 ''what is this''
                          (handleImageCapture ''img1'' initial))))) =
   [\<lparr>msg_id = toString 3, msg_role = Assistant, content = ''A cat'',
     timestamp = 2, imageUrl = None, audioUrl = None\<rparr>]"
  by (simp add: handleSendMessage_settle_def handleSendMessage_begin_def
        handleImageCapture_def initial_def Let_def)

end
